theory Spec2Isabelle
  imports Complex_Main "HOL-Library.AList"
begin

section \<open>Conventions of the embedding\<close>

text \<open>
  The Python sources are \<^verbatim>\<open>models.py\<close>, \<^verbatim>\<open>config.py\<close>,
  \<^verbatim>\<open>analyzers/translator.py\<close>, \<^verbatim>\<open>analyzers/scoring.py\<close> and
  \<^verbatim>\<open>analyzers/shadow.py\<close>.

  \<^item> Python \<^verbatim>\<open>int\<close> is \<open>int\<close>. A Python \<^verbatim>\<open>float\<close> (the weights and
    multipliers of \<^verbatim>\<open>ScoringWeights\<close>, the running total of \<^verbatim>\<open>_calculate_total\<close>)
    is read as the rational number it denotes, type \<open>rat\<close>: sums and products are exact,
    and the non-finite floats (infinities, NaN) have no counterpart.
  \<^item> A \<^verbatim>\<open>datetime\<close> is a number of seconds on a fixed time line; the clock
    \<^verbatim>\<open>datetime.now\<close> is an explicit parameter \<open>now\<close>.
  \<^item> A Python \<^verbatim>\<open>set\<close> is a duplicate-free list; the order in which Python iterates a
    set is not specified, the model takes the order left by \<open>remdups\<close>.
  \<^item> A \<^verbatim>\<open>dict\<close> whose insertion order is observed is an association list.
  \<^item> \<^verbatim>\<open>str.lower\<close> and \<^verbatim>\<open>str.split\<close> are modelled on ASCII characters.
  \<^item> Logging calls are dropped.
\<close>

section \<open>Strings\<close>

definition lower_char :: "char \<Rightarrow> char" where
  "lower_char c =
     (let n = (of_char c :: nat) in if 65 \<le> n \<and> n \<le> 90 then char_of (n + 32) else c)"

text \<open>\<^verbatim>\<open>str.lower()\<close>\<close>
definition lower :: "string \<Rightarrow> string" where
  "lower s = map lower_char s"

text \<open>The ASCII characters that \<^verbatim>\<open>str.split()\<close> treats as whitespace.\<close>
definition is_space :: "char \<Rightarrow> bool" where
  "is_space c = (let n = (of_char c :: nat) in (9 \<le> n \<and> n \<le> 13) \<or> (28 \<le> n \<and> n \<le> 32))"

fun split_from :: "string \<Rightarrow> string \<Rightarrow> string list" where
  "split_from cur [] = (if cur = [] then [] else [cur])"
| "split_from cur (c # cs) =
     (if is_space c then (if cur = [] then split_from [] cs else cur # split_from [] cs)
      else split_from (cur @ [c]) cs)"

text \<open>\<^verbatim>\<open>str.split()\<close> with no argument: the maximal runs of non-whitespace.\<close>
definition split :: "string \<Rightarrow> string list" where
  "split s = split_from [] s"

text \<open>\<^verbatim>\<open>str.strip()\<close>\<close>
definition strip :: "string \<Rightarrow> string" where
  "strip s = rev (dropWhile is_space (rev (dropWhile is_space s)))"

fun nat_digits :: "nat \<Rightarrow> string" where
  "nat_digits n =
     (if n < 10 then [char_of (48 + n)]
      else nat_digits (n div 10) @ [char_of (48 + n mod 10)])"

declare nat_digits.simps [simp del]

text \<open>\<^verbatim>\<open>str(i)\<close> of an integer, as an f-string renders it.\<close>
definition str_int :: "int \<Rightarrow> string" where
  "str_int i = (if i < 0 then CHR ''-'' # nat_digits (nat (- i)) else nat_digits (nat i))"

text \<open>\<^verbatim>\<open>int(x)\<close> of a float: truncation towards zero.\<close>
definition py_int :: "rat \<Rightarrow> int" where
  "py_int x = (if 0 \<le> x then \<lfloor>x\<rfloor> else \<lceil>x\<rceil>)"

section \<open>models.py\<close>

datatype CredentialType = PASSWORD | CERTIFICATE

datatype ConsentType = ADMIN | USER | CONSENT_UNKNOWN

datatype RiskCategory =
  READ_ONLY | DATA_EXFILTRATION | PRIVILEGE_ESCALATION | TENANT_TAKEOVER
  | PERSISTENCE | LATERAL_MOVEMENT | UNKNOWN

datatype AppType =
  FIRST_PARTY_MICROSOFT | TENANT_OWNED | THIRD_PARTY_MULTI_TENANT | EXTERNAL_UNKNOWN

type_synonym datetime = int

text \<open>\<^verbatim>\<open>timedelta.days\<close> of a difference of two instants (rounds down).\<close>
definition delta_days :: "datetime \<Rightarrow> datetime \<Rightarrow> int" where
  "delta_days a b = (a - b) div 86400"

record Credential =
  credential_id :: string
  credential_type :: CredentialType
  cred_display_name :: "string option"
  start_datetime :: "datetime option"
  end_datetime :: "datetime option"
  key_id :: "string option"

definition credential_type_value :: "CredentialType \<Rightarrow> string" where
  "credential_type_value t = (case t of PASSWORD \<Rightarrow> ''password'' | CERTIFICATE \<Rightarrow> ''certificate'')"

definition days_until_expiry :: "datetime \<Rightarrow> Credential \<Rightarrow> int option" where
  "days_until_expiry now c =
     (case end_datetime c of None \<Rightarrow> None | Some e \<Rightarrow> Some (delta_days e now))"

definition age_days :: "datetime \<Rightarrow> Credential \<Rightarrow> int option" where
  "age_days now c =
     (case start_datetime c of None \<Rightarrow> None | Some s \<Rightarrow> Some (delta_days now s))"

record Owner =
  owner_object_id :: string
  owner_display_name :: "string option"
  user_principal_name :: "string option"
  object_type :: string
  is_active :: "bool option"

record OAuth2PermissionGrant =
  grant_id :: string
  client_id :: string
  consent_type :: ConsentType
  grant_principal_id :: "string option"
  grant_resource_id :: string
  scope :: string

text \<open>Property \<^verbatim>\<open>OAuth2PermissionGrant.scopes\<close>.\<close>
definition scopes :: "OAuth2PermissionGrant \<Rightarrow> string list" where
  "scopes g = map strip (filter (\<lambda>s. strip s \<noteq> []) (split (scope g)))"

record AppRoleAssignment =
  assignment_id :: string
  app_role_id :: string
  principal_id :: string
  principal_type :: string
  resource_id :: string
  resource_display_name :: "string option"
  role_value :: "string option"
  role_display_name :: "string option"

record SignInActivity =
  last_sign_in_datetime :: "datetime option"
  last_non_interactive_sign_in_datetime :: "datetime option"
  last_successful_sign_in_datetime :: "datetime option"
  data_available :: bool

fun later :: "datetime option \<Rightarrow> datetime option \<Rightarrow> datetime option" where
  "later latest None = latest"
| "later None (Some dt) = Some dt"
| "later (Some l) (Some dt) = (if dt > l then Some dt else Some l)"

text \<open>Property \<^verbatim>\<open>SignInActivity.days_since_last_activity\<close>.\<close>
definition days_since_last_activity :: "datetime \<Rightarrow> SignInActivity \<Rightarrow> int option" where
  "days_since_last_activity now a =
     (case foldl later None
             [last_sign_in_datetime a, last_non_interactive_sign_in_datetime a,
              last_successful_sign_in_datetime a] of
        None \<Rightarrow> None
      | Some latest \<Rightarrow> Some (delta_days now latest))"

record Application =
  application_object_id :: string
  application_app_id :: string
  application_display_name :: string
  password_credentials :: "Credential list"
  key_credentials :: "Credential list"
  application_owners :: "Owner list"

definition all_credentials :: "Application \<Rightarrow> Credential list" where
  "all_credentials app = password_credentials app @ key_credentials app"

text \<open>
  Property \<^verbatim>\<open>Application.expiring_credentials\<close>: the credentials that expire within
  90 days, with the days left, in ascending order of the days (\<^verbatim>\<open>sorted\<close> is stable).
\<close>
definition expiring_credentials :: "datetime \<Rightarrow> Application \<Rightarrow> (Credential \<times> int) list" where
  "expiring_credentials now app =
     sort_key snd
       (concat (map (\<lambda>cred. case days_until_expiry now cred of
                               None \<Rightarrow> []
                             | Some days \<Rightarrow> (if 0 \<le> days \<and> days \<le> 90 then [(cred, days)] else []))
                    (all_credentials app)))"

record ServicePrincipal =
  object_id :: string
  app_id :: string
  display_name :: string
  app_type :: AppType
  verified_publisher :: "(string \<times> string) list option"
  app_owner_organization_id :: "string option"
  owners :: "Owner list"
  oauth2_permission_grants :: "OAuth2PermissionGrant list"
  app_role_assignments :: "AppRoleAssignment list"
  sign_in_activity :: "SignInActivity option"
  linked_application :: "Application option"
  unique_consenting_users :: "string list"

text \<open>
  Property \<^verbatim>\<open>has_verified_publisher\<close>: the dictionary is present, not empty, and holds a
  non-empty value under \<^verbatim>\<open>verifiedPublisherId\<close>.
\<close>
definition has_verified_publisher :: "ServicePrincipal \<Rightarrow> bool" where
  "has_verified_publisher sp =
     (case verified_publisher sp of
        None \<Rightarrow> False
      | Some d \<Rightarrow> d \<noteq> [] \<and>
          (case map_of d ''verifiedPublisherId'' of None \<Rightarrow> False | Some v \<Rightarrow> v \<noteq> []))"

definition has_owners :: "ServicePrincipal \<Rightarrow> bool" where
  "has_owners sp = (length (owners sp) > 0)"

definition has_delegated_grants :: "ServicePrincipal \<Rightarrow> bool" where
  "has_delegated_grants sp = (length (oauth2_permission_grants sp) > 0)"

definition all_delegated_scopes :: "ServicePrincipal \<Rightarrow> string list" where
  "all_delegated_scopes sp = remdups (concat (map scopes (oauth2_permission_grants sp)))"

definition all_app_role_values :: "ServicePrincipal \<Rightarrow> string list" where
  "all_app_role_values sp =
     remdups (concat (map (\<lambda>a. case role_value a of
                                  None \<Rightarrow> []
                                | Some v \<Rightarrow> (if v \<noteq> [] then [v] else []))
                          (app_role_assignments sp)))"

definition consent_user_count :: "ServicePrincipal \<Rightarrow> int" where
  "consent_user_count sp = int (length (remdups (unique_consenting_users sp)))"

record RiskFactor =
  name :: string
  description :: string
  score :: int
  weight :: rat
  details :: "string option"

record RiskScore =
  total_score :: int
  risk_level :: string
  factors :: "RiskFactor list"

record ShadowOAuthFinding =
  finding_type :: string
  severity :: string
  title :: string
  finding_description :: string
  service_principal_id :: string
  service_principal_name :: string
  affected_scopes :: "string list"
  affected_user_count :: int
  recommendation :: "string option"

record AnalysisResult =
  tenant_id :: string
  service_principals :: "ServicePrincipal list"
  shadow_findings :: "ShadowOAuthFinding list"
  sign_in_data_available :: bool

text \<open>
  The dataclass constructors with the defaults of the fields they do not take.
\<close>
definition new_ServicePrincipal :: "string \<Rightarrow> string \<Rightarrow> string \<Rightarrow> ServicePrincipal" where
  "new_ServicePrincipal oid aid dname =
     \<lparr>object_id = oid, app_id = aid, display_name = dname, app_type = EXTERNAL_UNKNOWN,
      verified_publisher = None, app_owner_organization_id = None, owners = [],
      oauth2_permission_grants = [], app_role_assignments = [], sign_in_activity = None,
      linked_application = None, unique_consenting_users = []\<rparr>"

definition new_OAuth2PermissionGrant ::
  "string \<Rightarrow> string \<Rightarrow> ConsentType \<Rightarrow> string option \<Rightarrow> string \<Rightarrow> string
   \<Rightarrow> OAuth2PermissionGrant" where
  "new_OAuth2PermissionGrant gid cid ct pid rid scp =
     \<lparr>grant_id = gid, client_id = cid, consent_type = ct, grant_principal_id = pid,
      grant_resource_id = rid, scope = scp\<rparr>"

definition new_AppRoleAssignment ::
  "string \<Rightarrow> string \<Rightarrow> string \<Rightarrow> string \<Rightarrow> string \<Rightarrow> string option \<Rightarrow> string option
   \<Rightarrow> AppRoleAssignment" where
  "new_AppRoleAssignment aid rid pid ptype resid resname rval =
     \<lparr>assignment_id = aid, app_role_id = rid, principal_id = pid, principal_type = ptype,
      resource_id = resid, resource_display_name = resname, role_value = rval,
      role_display_name = None\<rparr>"

definition new_Owner :: "string \<Rightarrow> string option \<Rightarrow> string option \<Rightarrow> string \<Rightarrow> Owner" where
  "new_Owner oid dname upn otype =
     \<lparr>owner_object_id = oid, owner_display_name = dname, user_principal_name = upn,
      object_type = otype, is_active = None\<rparr>"

definition new_AnalysisResult :: "string \<Rightarrow> AnalysisResult" where
  "new_AnalysisResult tid =
     \<lparr>tenant_id = tid, service_principals = [], shadow_findings = [],
      sign_in_data_available = False\<rparr>"

section \<open>config.py\<close>

record ThresholdConfig =
  credential_expiry_critical :: int
  credential_expiry_high :: int
  credential_expiry_medium :: int
  credential_expiry_low :: int
  inactive_days_threshold :: int
  credential_age_concern :: int

record ScoringWeights =
  application_permission_multiplier :: rat
  delegated_permission_multiplier :: rat
  user_consent_weight :: rat
  admin_consent_weight :: rat
  no_verified_publisher_weight :: rat
  external_multi_tenant_weight :: rat
  first_party_microsoft_weight :: rat
  no_owner_weight :: rat
  unused_high_privilege_weight :: rat

record AllowDenyConfig =
  allowed_app_ids :: "string list"
  denied_app_ids :: "string list"
  trusted_publisher_domains :: "string list"

record Config =
  thresholds :: ThresholdConfig
  scoring :: ScoringWeights
  allow_deny :: AllowDenyConfig

text \<open>The field defaults of the three dataclasses.\<close>
definition default_thresholds :: ThresholdConfig where
  "default_thresholds =
     \<lparr>credential_expiry_critical = 7, credential_expiry_high = 30,
      credential_expiry_medium = 60, credential_expiry_low = 90,
      inactive_days_threshold = 90, credential_age_concern = 365\<rparr>"

definition default_scoring :: ScoringWeights where
  "default_scoring =
     \<lparr>application_permission_multiplier = 3 / 2, delegated_permission_multiplier = 1,
      user_consent_weight = 6 / 5, admin_consent_weight = 1,
      no_verified_publisher_weight = 13 / 10, external_multi_tenant_weight = 6 / 5,
      first_party_microsoft_weight = 3 / 10, no_owner_weight = 13 / 10,
      unused_high_privilege_weight = 7 / 5\<rparr>"

definition default_allow_deny :: AllowDenyConfig where
  "default_allow_deny =
     \<lparr>allowed_app_ids = [], denied_app_ids = [], trusted_publisher_domains = []\<rparr>"

definition default_config :: Config where
  "default_config =
     \<lparr>thresholds = default_thresholds, scoring = default_scoring,
      allow_deny = default_allow_deny\<rparr>"

section \<open>analyzers/translator.py\<close>

record TranslatedPermission =
  permission :: string
  resource :: string
  plain_english :: string
  category :: RiskCategory
  category_label :: string
  impact_score :: int
  abuse_scenarios :: "string list"
  admin_impact_note :: "string option"
  is_known :: bool

text \<open>
  A rule is a dictionary with string keys; each field below is one key of the rules file,
  \<open>None\<close> when the key is absent.
\<close>
record Rule =
  rule_resource :: "string option"
  rule_plain_english :: "string option"
  rule_display_name :: "string option"
  rule_category :: "string option"
  rule_impact_score :: "int option"
  rule_abuse_scenarios :: "string list option"
  rule_admin_impact_note :: "string option"

text \<open>The attribute \<^verbatim>\<open>PermissionTranslator.rules\<close>, in insertion order.\<close>
type_synonym Rules = "(string \<times> Rule) list"

text \<open>Truth value of a dictionary: it has at least one key.\<close>
definition rule_truthy :: "Rule \<Rightarrow> bool" where
  "rule_truthy r =
     (\<not> (rule_resource r = None \<and> rule_plain_english r = None \<and> rule_display_name r = None
         \<and> rule_category r = None \<and> rule_impact_score r = None
         \<and> rule_abuse_scenarios r = None \<and> rule_admin_impact_note r = None))"

text \<open>\<^verbatim>\<open>d.get(key, default)\<close>\<close>
definition get_or :: "'a option \<Rightarrow> 'a \<Rightarrow> 'a" where
  "get_or v d = (case v of None \<Rightarrow> d | Some x \<Rightarrow> x)"

text \<open>The dictionary \<^verbatim>\<open>{"resource": resource, **perm_data}\<close>.\<close>
definition merge_rule :: "string \<Rightarrow> Rule \<Rightarrow> Rule" where
  "merge_rule res perm_data = perm_data\<lparr>rule_resource := Some (get_or (rule_resource perm_data) res)\<rparr>"

text \<open>
  The loop of \<^verbatim>\<open>_load_rules\<close> over the parsed document: a list of resource groups, each
  with its permission entries when the group is a dictionary (\<open>None\<close> otherwise).
  Each entry's value is a dictionary, as the schema of the rules file has it.
  Assigning to a key already present keeps its position.
\<close>
definition load_group :: "Rules \<Rightarrow> string \<times> (string \<times> Rule) list option \<Rightarrow> Rules" where
  "load_group rules grp =
     (case snd grp of
        None \<Rightarrow> rules
      | Some permissions \<Rightarrow>
          foldl (\<lambda>rs (perm_name, perm_data).
                   AList.update (lower perm_name) (merge_rule (fst grp) perm_data) rs)
                rules permissions)"

definition load_rules :: "(string \<times> (string \<times> Rule) list option) list \<Rightarrow> Rules" where
  "load_rules data = foldl load_group [] data"

definition CATEGORY_LABELS :: "RiskCategory \<Rightarrow> string" where
  "CATEGORY_LABELS c =
     (case c of
        READ_ONLY \<Rightarrow> ''Read-only''
      | DATA_EXFILTRATION \<Rightarrow> ''Data exfiltration''
      | PRIVILEGE_ESCALATION \<Rightarrow> ''Privilege escalation''
      | TENANT_TAKEOVER \<Rightarrow> ''Tenant takeover potential''
      | PERSISTENCE \<Rightarrow> ''Persistence''
      | LATERAL_MOVEMENT \<Rightarrow> ''Lateral movement''
      | UNKNOWN \<Rightarrow> ''Unknown'')"

definition parse_category :: "string \<Rightarrow> RiskCategory" where
  "parse_category category_str =
     (let k = lower category_str in
      if k = ''read_only'' then READ_ONLY
      else if k = ''data_exfiltration'' then DATA_EXFILTRATION
      else if k = ''privilege_escalation'' then PRIVILEGE_ESCALATION
      else if k = ''tenant_takeover'' then TENANT_TAKEOVER
      else if k = ''persistence'' then PERSISTENCE
      else if k = ''lateral_movement'' then LATERAL_MOVEMENT
      else UNKNOWN)"

text \<open>\<^verbatim>\<open>rule = self.rules.get(key)\<close> followed by \<^verbatim>\<open>if rule:\<close>.\<close>
definition find_rule :: "Rules \<Rightarrow> string \<Rightarrow> Rule option" where
  "find_rule rules key =
     (case map_of rules key of
        None \<Rightarrow> None
      | Some rule \<Rightarrow> (if rule_truthy rule then Some rule else None))"

definition translate_res :: "Rules \<Rightarrow> string \<Rightarrow> string \<Rightarrow> TranslatedPermission" where
  "translate_res rules perm res =
     (let key = lower perm in
      case find_rule rules key of
        Some rule \<Rightarrow>
          (let cat = parse_category (get_or (rule_category rule) ''unknown'') in
           \<lparr>permission = perm,
            resource = get_or (rule_resource rule) res,
            plain_english =
              get_or (rule_plain_english rule) (get_or (rule_display_name rule) perm),
            category = cat,
            category_label = CATEGORY_LABELS cat,
            impact_score = get_or (rule_impact_score rule) 30,
            abuse_scenarios = get_or (rule_abuse_scenarios rule) [],
            admin_impact_note = rule_admin_impact_note rule,
            is_known = True\<rparr>)
      | None \<Rightarrow>
          \<lparr>permission = perm,
           resource = res,
           plain_english = ''Permission: '' @ perm @ '' (no translation available)'',
           category = UNKNOWN,
           category_label = ''Unknown - requires review'',
           impact_score = 30,
           abuse_scenarios = [],
           admin_impact_note = None,
           is_known = False\<rparr>)"

text \<open>\<^verbatim>\<open>translate\<close> with the default of its second parameter.\<close>
definition translate :: "Rules \<Rightarrow> string \<Rightarrow> TranslatedPermission" where
  "translate rules perm = translate_res rules perm ''microsoft_graph''"

text \<open>
  The inner loop of \<^verbatim>\<open>get_high_impact_permissions\<close>: the first key of the rules whose
  lower-casing is \<open>perm_key\<close>; the rule's display name, or the key, when there is none.
\<close>
definition original_casing :: "Rules \<Rightarrow> string \<Rightarrow> Rule \<Rightarrow> string" where
  "original_casing rules perm_key rule =
     (case filter (\<lambda>orig_key. lower orig_key = perm_key) (map fst rules) of
        [] \<Rightarrow> get_or (rule_display_name rule) perm_key
      | orig_key # _ \<Rightarrow> orig_key)"

text \<open>
  \<^verbatim>\<open>sorted(results, key=..., reverse=True)\<close>: descending, entries of equal score in
  their original order.
\<close>
definition get_high_impact_permissions ::
  "Rules \<Rightarrow> int \<Rightarrow> (string \<times> TranslatedPermission) list" where
  "get_high_impact_permissions rules min_score =
     sort_key (\<lambda>x. - impact_score (snd x))
       (concat (map (\<lambda>(perm_key, rule).
                       if get_or (rule_impact_score rule) 0 \<ge> min_score
                       then (let perm_name = original_casing rules perm_key rule
                             in [(perm_name, translate rules perm_name)])
                       else [])
                    rules))"

section \<open>analyzers/scoring.py\<close>

definition CRITICAL_THRESHOLD :: int where "CRITICAL_THRESHOLD = 80"
definition HIGH_THRESHOLD :: int where "HIGH_THRESHOLD = 60"
definition MEDIUM_THRESHOLD :: int where "MEDIUM_THRESHOLD = 40"

text \<open>\<^verbatim>\<open>x or default\<close> on an optional string: the default replaces \<open>None\<close> and the empty string.\<close>
definition str_or :: "string option \<Rightarrow> string \<Rightarrow> string" where
  "str_or v d = (case v of None \<Rightarrow> d | Some x \<Rightarrow> (if x = [] then d else x))"

definition delegated_factor :: "Config \<Rightarrow> Rules \<Rightarrow> string \<Rightarrow> RiskFactor list" where
  "delegated_factor cfg rules scp =
     (let translated = translate rules scp;
          base_score = impact_score translated;
          s = py_int (of_int base_score * delegated_permission_multiplier (scoring cfg))
      in if s > 0
         then [\<lparr>name = ''Delegated: '' @ scp, description = plain_english translated,
                score = s, weight = 1,
                details = Some (''Category: '' @ category_label translated)\<rparr>]
         else [])"

definition application_factor :: "Config \<Rightarrow> Rules \<Rightarrow> string \<Rightarrow> RiskFactor list" where
  "application_factor cfg rules role_val =
     (if role_val = [] \<or> role_val = ''Default Access'' then []
      else
        (let translated = translate rules role_val;
             base_score = impact_score translated;
             s = py_int (of_int base_score * application_permission_multiplier (scoring cfg))
         in if s > 0
            then [\<lparr>name = ''Application: '' @ role_val, description = plain_english translated,
                   score = s, weight = 1,
                   details = Some (''Category: '' @ category_label translated)\<rparr>]
            else []))"

definition has_user_consent :: "ServicePrincipal \<Rightarrow> bool" where
  "has_user_consent sp = list_ex (\<lambda>g. consent_type g = USER) (oauth2_permission_grants sp)"

definition score_permissions :: "Config \<Rightarrow> Rules \<Rightarrow> ServicePrincipal \<Rightarrow> RiskFactor list" where
  "score_permissions cfg rules sp =
     concat (map (delegated_factor cfg rules) (all_delegated_scopes sp))
     @ concat (map (application_factor cfg rules) (all_app_role_values sp))
     @ (if has_user_consent sp
        then [\<lparr>name = ''User Consent Present'',
                description = ''Some permissions were granted via user consent (not admin)'',
                score = 20, weight = user_consent_weight (scoring cfg),
                details = Some (''Users who consented: '' @ str_int (consent_user_count sp))\<rparr>]
        else [])"

definition score_trust_factors :: "Config \<Rightarrow> ServicePrincipal \<Rightarrow> RiskFactor list" where
  "score_trust_factors cfg sp =
     (if app_type sp = FIRST_PARTY_MICROSOFT
      then [\<lparr>name = ''Microsoft First-Party'',
              description = ''This is a Microsoft first-party application'',
              score = - 30, weight = first_party_microsoft_weight (scoring cfg),
              details = None\<rparr>]
      else
        (if \<not> has_verified_publisher sp
         then [\<lparr>name = ''No Verified Publisher'',
                 description = ''App does not have a verified publisher'',
                 score = 15, weight = no_verified_publisher_weight (scoring cfg),
                 details = None\<rparr>]
         else [])
        @ (if app_type sp = THIRD_PARTY_MULTI_TENANT
           then [\<lparr>name = ''Third-Party Multi-Tenant'',
                   description = ''App is owned by external organization'',
                   score = 10, weight = external_multi_tenant_weight (scoring cfg),
                   details = Some (''Owner org: '' @ str_or (app_owner_organization_id sp) ''Unknown'')\<rparr>]
           else if app_type sp = EXTERNAL_UNKNOWN
           then [\<lparr>name = ''Unknown Origin'',
                   description = ''App origin could not be determined'',
                   score = 20, weight = external_multi_tenant_weight (scoring cfg),
                   details = None\<rparr>]
           else []))"

text \<open>The loops \<^verbatim>\<open>max_impact = max(max_impact, translated.impact_score)\<close>.\<close>
definition max_impact_over :: "Rules \<Rightarrow> int \<Rightarrow> string list \<Rightarrow> int" where
  "max_impact_over rules m perms =
     foldl (\<lambda>max_impact p. max max_impact (impact_score (translate rules p))) m perms"

definition score_ownership :: "Config \<Rightarrow> Rules \<Rightarrow> ServicePrincipal \<Rightarrow> RiskFactor list" where
  "score_ownership cfg rules sp =
     (if \<not> has_owners sp
      then
        (let max_impact = max_impact_over rules 0 (all_delegated_scopes sp);
             max_impact = max_impact_over rules max_impact
                            (filter (\<lambda>role. role \<noteq> [] \<and> role \<noteq> ''Default Access'')
                                    (all_app_role_values sp));
             s = (if max_impact \<ge> 70 then 15 else 10)
         in [\<lparr>name = ''No Owners'',
               description = ''Service principal has no assigned owners'',
               score = s, weight = no_owner_weight (scoring cfg),
               details = Some ''Orphaned apps are harder to manage and review''\<rparr>])
      else [])"

definition score_activity ::
  "Config \<Rightarrow> Rules \<Rightarrow> datetime \<Rightarrow> ServicePrincipal \<Rightarrow> RiskFactor list" where
  "score_activity cfg rules now sp =
     (case sign_in_activity sp of
        None \<Rightarrow> []
      | Some activity \<Rightarrow>
          if \<not> data_available activity then []
          else
            (let threshold = inactive_days_threshold (thresholds cfg) in
             case days_since_last_activity now activity of
               None \<Rightarrow>
                 (if \<not> (all_delegated_scopes sp = [] \<and> all_app_role_values sp = [])
                  then [\<lparr>name = ''Never Used'',
                          description = ''App has permissions but no sign-in activity recorded'',
                          score = 15, weight = unused_high_privilege_weight (scoring cfg),
                          details = Some ''Consider reviewing if these permissions are still needed''\<rparr>]
                  else [])
             | Some days_inactive \<Rightarrow>
                 (if days_inactive > threshold
                  then
                    (let max_impact = max_impact_over rules 0 (all_delegated_scopes sp)
                     in if max_impact \<ge> 70
                        then [\<lparr>name = ''Inactive High-Privilege'',
                                description = ''App unused for '' @ str_int days_inactive
                                  @ '' days with high-impact permissions'',
                                score = 25, weight = unused_high_privilege_weight (scoring cfg),
                                details = Some (''Threshold: '' @ str_int threshold @ '' days'')\<rparr>]
                        else [])
                  else [])))"

text \<open>The bodies of the two loops of \<^verbatim>\<open>_score_credentials\<close>.\<close>
definition expiring_factor :: "Config \<Rightarrow> Credential \<times> int \<Rightarrow> RiskFactor list" where
  "expiring_factor cfg cd =
     (case cd of (cred, days) \<Rightarrow>
        if days \<le> credential_expiry_critical (thresholds cfg)
        then [\<lparr>name = ''Credential Expiring (''
                  @ credential_type_value (credential_type cred) @ '')'',
                description = ''Credential expires in '' @ str_int days @ '' days'',
                score = 10, weight = 6 / 5,
                details = Some (str_or (cred_display_name cred) ''Unnamed credential'')\<rparr>]
        else [])"

definition old_credential_factor :: "Config \<Rightarrow> datetime \<Rightarrow> Credential \<Rightarrow> RiskFactor list" where
  "old_credential_factor cfg now cred =
     (case age_days now cred of
        None \<Rightarrow> []
      | Some age \<Rightarrow>
          (if age \<noteq> 0 \<and> age > credential_age_concern (thresholds cfg)
           then [\<lparr>name = ''Old Credential'',
                   description = ''Credential is '' @ str_int age @ '' days old'',
                   score = 5, weight = 1,
                   details = Some (''Consider rotating: ''
                     @ str_or (cred_display_name cred) ''Unnamed'')\<rparr>]
           else []))"

definition score_credentials ::
  "Config \<Rightarrow> datetime \<Rightarrow> ServicePrincipal \<Rightarrow> RiskFactor list" where
  "score_credentials cfg now sp =
     (case linked_application sp of
        None \<Rightarrow> []
      | Some app \<Rightarrow>
          concat (map (expiring_factor cfg) (expiring_credentials now app))
          @ concat (map (old_credential_factor cfg now) (all_credentials app)))"

text \<open>The accumulation \<^verbatim>\<open>total += factor.score * factor.weight\<close> from \<open>0.0\<close>; the running total is \<open>t\<close>.\<close>
definition weighted_sum :: "RiskFactor list \<Rightarrow> rat" where
  "weighted_sum fs = foldl (\<lambda>t f. t + of_int (score f) * weight f) 0 fs"

definition calculate_total :: "RiskFactor list \<Rightarrow> int" where
  "calculate_total fs =
     (if fs = [] then 0
      else
        (let t = weighted_sum fs;
             t = (if t > 100 then 100 + (t - 100) * (1 / 10) else t);
             t = (if t > 120 then 120 else t)
         in max 0 (min 100 (py_int t))))"

definition risk_level_of :: "int \<Rightarrow> string" where
  "risk_level_of t =
     (if t \<ge> CRITICAL_THRESHOLD then ''Critical''
      else if t \<ge> HIGH_THRESHOLD then ''High''
      else if t \<ge> MEDIUM_THRESHOLD then ''Medium''
      else ''Low'')"

text \<open>The factor list that \<^verbatim>\<open>score_service_principal\<close> accumulates past the allow list.\<close>
definition collect_factors ::
  "Config \<Rightarrow> Rules \<Rightarrow> datetime \<Rightarrow> ServicePrincipal \<Rightarrow> RiskFactor list" where
  "collect_factors cfg rules now sp =
     (if app_id sp \<in> set (denied_app_ids (allow_deny cfg))
      then [\<lparr>name = ''Deny List'', description = ''App is on the deny list'',
              score = 100, weight = 1, details = Some (''App ID: '' @ app_id sp)\<rparr>]
      else [])
     @ score_permissions cfg rules sp
     @ score_trust_factors cfg sp
     @ score_ownership cfg rules sp
     @ score_activity cfg rules now sp
     @ (if linked_application sp \<noteq> None then score_credentials cfg now sp else [])"

definition score_service_principal ::
  "Config \<Rightarrow> Rules \<Rightarrow> datetime \<Rightarrow> ServicePrincipal \<Rightarrow> RiskScore" where
  "score_service_principal cfg rules now sp =
     (if app_id sp \<in> set (allowed_app_ids (allow_deny cfg))
      then \<lparr>total_score = 0, risk_level = ''Allowed'',
            factors = [\<lparr>name = ''Allow List'', description = ''App is on the allow list'',
                        score = 0, weight = 1, details = None\<rparr>]\<rparr>
      else
        (let fs = collect_factors cfg rules now sp;
             t = calculate_total fs
         in \<lparr>total_score = t, risk_level = risk_level_of t, factors = fs\<rparr>))"

section \<open>analyzers/shadow.py\<close>

definition HIGH_IMPACT_SCOPES :: "string list" where
  "HIGH_IMPACT_SCOPES =
     [''Directory.ReadWrite.All'', ''RoleManagement.ReadWrite.Directory'',
      ''Application.ReadWrite.All'', ''AppRoleAssignment.ReadWrite.All'',
      ''Mail.ReadWrite'', ''Mail.Read'', ''Files.ReadWrite.All'', ''Files.Read.All'',
      ''Sites.ReadWrite.All'', ''User.ReadWrite.All'', ''Group.ReadWrite.All'',
      ''GroupMember.ReadWrite.All'', ''Chat.Read.All'', ''ChannelMessage.Read.All'']"

text \<open>\<^verbatim>\<open>perms & HIGH_IMPACT_SCOPES\<close>\<close>
definition high_impact_of :: "string list \<Rightarrow> string list" where
  "high_impact_of perms = filter (\<lambda>p. p \<in> set HIGH_IMPACT_SCOPES) perms"

text \<open>\<^verbatim>\<open>sp.all_delegated_scopes | sp.all_app_role_values\<close>\<close>
definition all_perms :: "ServicePrincipal \<Rightarrow> string list" where
  "all_perms sp = remdups (all_delegated_scopes sp @ all_app_role_values sp)"

definition quoted :: "string \<Rightarrow> string" where
  "quoted s = [CHR 0x27] @ s @ [CHR 0x27]"

definition detect_external_delegated_grants :: "ServicePrincipal \<Rightarrow> ShadowOAuthFinding list" where
  "detect_external_delegated_grants sp =
     (if app_type sp \<notin> set [THIRD_PARTY_MULTI_TENANT, EXTERNAL_UNKNOWN] then []
      else if \<not> has_delegated_grants sp then []
      else
        (let high_impact = high_impact_of (all_delegated_scopes sp);
             all_scopes = all_delegated_scopes sp
         in if high_impact \<noteq> []
            then [\<lparr>finding_type = ''external_delegated_high_impact'',
                    severity = ''High'',
                    title = ''External App with High-Impact Delegated Permissions'',
                    finding_description =
                      ''Third-party app '' @ quoted (display_name sp)
                      @ '' has delegated permissions including high-impact scopes. ''
                      @ ''This app is not owned by your tenant.'',
                    service_principal_id = object_id sp,
                    service_principal_name = display_name sp,
                    affected_scopes = high_impact,
                    affected_user_count = consent_user_count sp,
                    recommendation =
                      Some (''Review if this app is still needed. Verify the publisher and ''
                            @ ''consider reducing permissions or removing the app.'')\<rparr>]
            else if all_scopes \<noteq> []
            then [\<lparr>finding_type = ''external_delegated'',
                    severity = ''Medium'',
                    title = ''External App with Delegated Permissions'',
                    finding_description =
                      ''Third-party app '' @ quoted (display_name sp)
                      @ '' has delegated permissions. This app is not owned by your tenant.'',
                    service_principal_id = object_id sp,
                    service_principal_name = display_name sp,
                    affected_scopes = all_scopes,
                    affected_user_count = consent_user_count sp,
                    recommendation =
                      Some ''Verify this app is authorized for use in your organization.''\<rparr>]
            else []))"

definition user_consented_scopes :: "ServicePrincipal \<Rightarrow> string list" where
  "user_consented_scopes sp =
     remdups (concat (map (\<lambda>g. if consent_type g = USER then scopes g else [])
                          (oauth2_permission_grants sp)))"

definition detect_user_consent_high_impact :: "ServicePrincipal \<Rightarrow> ShadowOAuthFinding list" where
  "detect_user_consent_high_impact sp =
     (if user_consented_scopes sp = [] then []
      else
        (let high_impact = high_impact_of (user_consented_scopes sp)
         in if high_impact \<noteq> []
            then [\<lparr>finding_type = ''user_consent_high_impact'',
                    severity = ''High'',
                    title = ''User-Consented App with High-Impact Permissions'',
                    finding_description =
                      ''App '' @ quoted (display_name sp)
                      @ '' received high-impact permissions via user consent ''
                      @ ''(not admin consent). '' @ str_int (consent_user_count sp)
                      @ '' user(s) granted consent.'',
                    service_principal_id = object_id sp,
                    service_principal_name = display_name sp,
                    affected_scopes = high_impact,
                    affected_user_count = consent_user_count sp,
                    recommendation =
                      Some (''Review user consent settings. Consider blocking user consent for ''
                            @ ''high-impact permissions and requiring admin approval.'')\<rparr>]
            else []))"

definition detect_offline_access_risk :: "ServicePrincipal \<Rightarrow> ShadowOAuthFinding list" where
  "detect_offline_access_risk sp =
     (if ''offline_access'' \<notin> set (all_delegated_scopes sp) then []
      else
        (let other_scopes =
               filter (\<lambda>s. s \<notin> set [''offline_access'', ''openid'', ''profile'', ''email''])
                      (all_delegated_scopes sp);
             high_impact = high_impact_of other_scopes
         in if high_impact \<noteq> []
            then [\<lparr>finding_type = ''offline_access_high_impact'',
                    severity = ''Medium'',
                    title = ''Long-Lived Token Risk with High-Impact Permissions'',
                    finding_description =
                      ''App '' @ quoted (display_name sp)
                      @ '' has offline_access (refresh tokens) combined ''
                      @ ''with high-impact permissions. This allows persistent access even after ''
                      @ ''password changes.'',
                    service_principal_id = object_id sp,
                    service_principal_name = display_name sp,
                    affected_scopes = remdups (high_impact @ [''offline_access'']),
                    affected_user_count = consent_user_count sp,
                    recommendation =
                      Some (''Consider if offline_access is necessary. Review token lifetime policies ''
                            @ ''and implement Conditional Access for app access controls.'')\<rparr>]
            else []))"

definition detect_inactive_privileged ::
  "Config \<Rightarrow> datetime \<Rightarrow> ServicePrincipal \<Rightarrow> AnalysisResult \<Rightarrow> ShadowOAuthFinding list" where
  "detect_inactive_privileged cfg now sp result =
     (if \<not> sign_in_data_available result then []
      else
        (case sign_in_activity sp of
           None \<Rightarrow> []
         | Some activity \<Rightarrow>
             if \<not> data_available activity then []
             else
               (let days_inactive = days_since_last_activity now activity;
                    threshold = inactive_days_threshold (thresholds cfg);
                    (is_inactive, inactive_msg) =
                      (case days_inactive of
                         None \<Rightarrow> (True, ''never been used'')
                       | Some d \<Rightarrow>
                           (if d > threshold
                            then (True, ''not been used in '' @ str_int d @ '' days'')
                            else (False, [])))
                in if \<not> is_inactive then []
                   else
                     (let high_impact = high_impact_of (all_perms sp)
                      in if high_impact \<noteq> []
                         then [\<lparr>finding_type = ''inactive_privileged'',
                                 severity = ''High'',
                                 title = ''Inactive App with High-Impact Permissions'',
                                 finding_description =
                                   ''App '' @ quoted (display_name sp) @ '' has '' @ inactive_msg
                                   @ '' but retains high-impact permissions.'',
                                 service_principal_id = object_id sp,
                                 service_principal_name = display_name sp,
                                 affected_scopes = high_impact,
                                 affected_user_count = 0,
                                 recommendation =
                                   Some (''Review if this app is still needed. Consider removing or reducing ''
                                         @ ''permissions for unused apps (inactive threshold: ''
                                         @ str_int threshold @ '' days).'')\<rparr>]
                         else []))))"

definition detect_orphaned_privileged :: "ServicePrincipal \<Rightarrow> ShadowOAuthFinding list" where
  "detect_orphaned_privileged sp =
     (if has_owners sp then []
      else
        (let perms = all_perms sp;
             high_impact = high_impact_of perms
         in if high_impact \<noteq> []
            then [\<lparr>finding_type = ''orphaned_privileged'',
                    severity = ''High'',
                    title = ''Orphaned App with High-Impact Permissions'',
                    finding_description =
                      ''App '' @ quoted (display_name sp)
                      @ '' has no assigned owners but has high-impact permissions.'',
                    service_principal_id = object_id sp,
                    service_principal_name = display_name sp,
                    affected_scopes = high_impact,
                    affected_user_count = 0,
                    recommendation =
                      Some (''Assign owners to this app to ensure accountability. ''
                            @ ''Consider if the permissions are still needed.'')\<rparr>]
            else if perms \<noteq> []
            then [\<lparr>finding_type = ''orphaned_with_permissions'',
                    severity = ''Medium'',
                    title = ''Orphaned App with Permissions'',
                    finding_description =
                      ''App '' @ quoted (display_name sp)
                      @ '' has no assigned owners but has active permissions.'',
                    service_principal_id = object_id sp,
                    service_principal_name = display_name sp,
                    affected_scopes = perms,
                    affected_user_count = 0,
                    recommendation =
                      Some ''Assign owners to this app to ensure accountability.''\<rparr>]
            else []))"

definition detect_unknown_publisher_high_impact ::
  "ServicePrincipal \<Rightarrow> ShadowOAuthFinding list" where
  "detect_unknown_publisher_high_impact sp =
     (if has_verified_publisher sp then []
      else if app_type sp = TENANT_OWNED then []
      else
        (let high_impact = high_impact_of (all_perms sp)
         in if high_impact \<noteq> []
            then [\<lparr>finding_type = ''unverified_publisher_high_impact'',
                    severity = ''High'',
                    title = ''Unverified Publisher with High-Impact Permissions'',
                    finding_description =
                      ''App '' @ quoted (display_name sp)
                      @ '' has no verified publisher but has high-impact permissions.'',
                    service_principal_id = object_id sp,
                    service_principal_name = display_name sp,
                    affected_scopes = high_impact,
                    affected_user_count = 0,
                    recommendation =
                      Some (''Verify the legitimacy of this app. Consider requiring verified ''
                            @ ''publishers for apps with high-impact permissions.'')\<rparr>]
            else []))"

text \<open>The dictionary \<^verbatim>\<open>severity_order\<close> read with \<^verbatim>\<open>.get(f.severity, 99)\<close>.\<close>
definition severity_order :: "string \<Rightarrow> nat" where
  "severity_order sev =
     (if sev = ''Critical'' then 0 else if sev = ''High'' then 1
      else if sev = ''Medium'' then 2 else if sev = ''Low'' then 3 else 99)"

text \<open>The six \<^verbatim>\<open>findings.extend\<close> calls of the loop body of \<^verbatim>\<open>detect\<close>.\<close>
definition detection_rules ::
  "Config \<Rightarrow> datetime \<Rightarrow> AnalysisResult \<Rightarrow> ServicePrincipal \<Rightarrow> ShadowOAuthFinding list" where
  "detection_rules cfg now result sp =
     detect_external_delegated_grants sp
     @ detect_user_consent_high_impact sp
     @ detect_offline_access_risk sp
     @ detect_inactive_privileged cfg now sp result
     @ detect_orphaned_privileged sp
     @ detect_unknown_publisher_high_impact sp"

text \<open>One iteration of the loop of \<^verbatim>\<open>detect\<close>: what a service principal adds to the findings.\<close>
definition detect_one ::
  "Config \<Rightarrow> datetime \<Rightarrow> AnalysisResult \<Rightarrow> ServicePrincipal \<Rightarrow> ShadowOAuthFinding list" where
  "detect_one cfg now result sp =
     (if app_type sp = FIRST_PARTY_MICROSOFT then []
      else if app_id sp \<in> set (allowed_app_ids (allow_deny cfg)) then []
      else detection_rules cfg now result sp)"

text \<open>
  \<^verbatim>\<open>detect\<close> returns the sorted findings and stores them in the result; the model
  returns both the list and the updated result. \<^verbatim>\<open>list.sort\<close> is stable.
\<close>
definition detect ::
  "Config \<Rightarrow> datetime \<Rightarrow> AnalysisResult \<Rightarrow> ShadowOAuthFinding list \<times> AnalysisResult" where
  "detect cfg now result =
     (let findings = concat (map (detect_one cfg now result) (service_principals result));
          findings = sort_key (\<lambda>f. severity_order (severity f)) findings
      in (findings, result\<lparr>shadow_findings := findings\<rparr>))"

section \<open>Definitions used to state the properties\<close>

text \<open>The contribution \<^verbatim>\<open>factor.score * factor.weight\<close> of one factor to the total.\<close>
definition contribution :: "RiskFactor \<Rightarrow> rat" where
  "contribution f = of_int (score f) * weight f"




section \<open>Example inputs\<close>

text \<open>A rules document with three entries, the last without an impact score.\<close>
definition catalog_doc :: "(string \<times> (string \<times> Rule) list option) list" where
  "catalog_doc =
     [(''microsoft_graph'',
       Some [(''Directory.ReadWrite.All'',
              \<lparr>rule_resource = None,
               rule_plain_english = Some ''Read and write all directory data'',
               rule_display_name = None, rule_category = Some ''tenant_takeover'',
               rule_impact_score = Some 100,
               rule_abuse_scenarios = Some [''Create admin accounts''],
               rule_admin_impact_note = Some ''Full directory control''\<rparr>),
             (''Mail.Read'',
              \<lparr>rule_resource = None, rule_plain_english = Some ''Read user mail'',
               rule_display_name = None, rule_category = Some ''data_exfiltration'',
               rule_impact_score = Some 70, rule_abuse_scenarios = None,
               rule_admin_impact_note = None\<rparr>),
             (''Custom.Audit'',
              \<lparr>rule_resource = None, rule_plain_english = Some ''Read audit data'',
               rule_display_name = None, rule_category = Some ''read_only'',
               rule_impact_score = None, rule_abuse_scenarios = None,
               rule_admin_impact_note = None\<rparr>)])]"

definition catalog :: Rules where
  "catalog = load_rules catalog_doc"

text \<open>A tenant-owned application with one owner and one admin-consented grant.\<close>
definition sp_tenant :: ServicePrincipal where
  "sp_tenant =
     (new_ServicePrincipal ''sp-obj-123'' ''app-id-123'' ''Test App SP'')
       \<lparr>app_type := TENANT_OWNED,
        owners := [new_Owner ''owner-1'' (Some ''Test Owner'') (Some ''owner@example.com'') ''user''],
        oauth2_permission_grants :=
          [new_OAuth2PermissionGrant ''grant-1'' ''sp-obj-123'' ADMIN None ''graph-sp-id''
             ''User.Read Mail.Read'']\<rparr>"

text \<open>A configuration that lists the application above as allowed and as denied.\<close>
definition config_listed :: Config where
  "config_listed =
     default_config\<lparr>allow_deny :=
       \<lparr>allowed_app_ids = [''app-id-123''], denied_app_ids = [''app-id-123''],
        trusted_publisher_domains = []\<rparr>\<rparr>"

text \<open>The names of the permission entries of a parsed rules document.\<close>
definition entry_names :: "(string \<times> (string \<times> Rule) list option) list \<Rightarrow> string list" where
  "entry_names data =
     concat (map (\<lambda>grp. case snd grp of None \<Rightarrow> [] | Some permissions \<Rightarrow> map fst permissions) data)"

text \<open>The default configuration with the application above on the deny list only.\<close>
definition config_denied :: Config where
  "config_denied =
     default_config\<lparr>allow_deny := (allow_deny default_config)\<lparr>denied_app_ids := [''app-id-123'']\<rparr>\<rparr>"



text \<open>A third-party application without owners, with user-consented high-impact scopes.\<close>
definition sp_high_risk :: ServicePrincipal where
  "sp_high_risk =
     (new_ServicePrincipal ''sp-high-risk'' ''app-high-risk'' ''Risky Third Party App'')
       \<lparr>app_type := THIRD_PARTY_MULTI_TENANT,
        app_owner_organization_id := Some ''other-tenant-id'',
        oauth2_permission_grants :=
          [new_OAuth2PermissionGrant ''grant-risky'' ''sp-high-risk'' USER (Some ''user-1'')
             ''graph-sp-id'' ''Mail.ReadWrite Files.ReadWrite.All offline_access'',
           new_OAuth2PermissionGrant ''grant-risky-2'' ''sp-high-risk'' USER (Some ''user-2'')
             ''graph-sp-id'' ''Mail.ReadWrite''],
        unique_consenting_users := [''user-1'', ''user-2'']\<rparr>"

text \<open>A first-party application that holds a directory-wide application role.\<close>
definition sp_first_party :: ServicePrincipal where
  "sp_first_party =
     (new_ServicePrincipal ''ms-sp-123'' ''00000003-0000-0000-c000-000000000000''
        ''Microsoft Graph'')
       \<lparr>app_type := FIRST_PARTY_MICROSOFT,
        verified_publisher := Some [(''verifiedPublisherId'', ''f8cdef31'')],
        app_role_assignments :=
          [new_AppRoleAssignment ''role'' ''role-id'' ''ms-sp-123'' ''ServicePrincipal'' ''graph''
             (Some ''Graph'') (Some ''Directory.ReadWrite.All'')]\<rparr>"


definition result_example :: AnalysisResult where
  "result_example =
     (new_AnalysisResult ''test-tenant-id'')
       \<lparr>service_principals := [sp_tenant, sp_first_party, sp_high_risk]\<rparr>"

text \<open>Sign-in telemetry with one sign-in at instant 0, read 200 days later.\<close>
definition activity_example :: SignInActivity where
  "activity_example =
     \<lparr>last_sign_in_datetime = Some 0, last_non_interactive_sign_in_datetime = None,
      last_successful_sign_in_datetime = None, data_available = True\<rparr>"

definition now_example :: datetime where
  "now_example = 200 * 86400"

text \<open>
  An application whose only permission is the application role
  \<^verbatim>\<open>Directory.ReadWrite.All\<close>, without owners, last active 200 days ago.
\<close>
definition sp_inactive_role :: ServicePrincipal where
  "sp_inactive_role =
     (new_ServicePrincipal ''sp-app'' ''app-app'' ''Application Perm'')
       \<lparr>app_type := TENANT_OWNED,
        app_role_assignments :=
          [new_AppRoleAssignment ''role'' ''role-id'' ''sp-app'' ''ServicePrincipal'' ''graph''
             (Some ''Graph'') (Some ''Directory.ReadWrite.All'')],
        sign_in_activity := Some activity_example\<rparr>"

text \<open>The same application holding the permission as an admin-consented delegated scope.\<close>
definition sp_inactive_scope :: ServicePrincipal where
  "sp_inactive_scope =
     sp_inactive_role
       \<lparr>app_role_assignments := [],
        oauth2_permission_grants :=
          [new_OAuth2PermissionGrant ''grant'' ''sp-app'' ADMIN None ''graph''
             ''Directory.ReadWrite.All'']\<rparr>"






section \<open>Auxiliary facts\<close>



subsection \<open>The weighted sum\<close>

lemma foldl_add_sum_list:
  "foldl (\<lambda>t f. t + g f) a xs = a + sum_list (map g xs)" for a :: rat
  by (induction xs arbitrary: a) (simp_all add: add.assoc)

lemma weighted_sum_sum_list: "weighted_sum fs = sum_list (map contribution fs)"
  unfolding weighted_sum_def contribution_def
  by (simp add: foldl_add_sum_list [where g = "\<lambda>f. of_int (score f) * weight f"])

lemma weighted_sum_append [simp]:
  "weighted_sum (xs @ ys) = weighted_sum xs + weighted_sum ys"
  by (simp add: weighted_sum_sum_list)

lemma weighted_sum_Nil [simp]: "weighted_sum [] = 0"
  by (simp add: weighted_sum_sum_list)

lemma weighted_sum_Cons [simp]: "weighted_sum (f # fs) = contribution f + weighted_sum fs"
  by (simp add: weighted_sum_sum_list)


subsection \<open>Signs of the factor groups\<close>












subsection \<open>The detector\<close>

lemma detect_inactive_privileged_denied:
  "detect_inactive_privileged (cfg\<lparr>allow_deny := (allow_deny cfg)\<lparr>denied_app_ids := d\<rparr>\<rparr>) now sp result
   = detect_inactive_privileged cfg now sp result"
  by (simp add: detect_inactive_privileged_def split: option.splits)

lemma detect_one_denied:
  "detect_one (cfg\<lparr>allow_deny := (allow_deny cfg)\<lparr>denied_app_ids := d\<rparr>\<rparr>) now result
   = detect_one cfg now result"
  by (rule ext)
     (simp add: detect_one_def detection_rules_def detect_inactive_privileged_denied)

lemma concat_map_skip:
  "concat (map (\<lambda>x. if P x then [] else if Q x then [] else f x) xs)
   = concat (map f (filter (\<lambda>x. \<not> P x \<and> \<not> Q x) xs))"
  by (induction xs) simp_all



subsection \<open>The catalog\<close>

lemma keys_load_group:
  "fst ` set (load_group rules grp)
   = fst ` set rules \<union> (case snd grp of None \<Rightarrow> {} | Some ps \<Rightarrow> lower ` fst ` set ps)"
proof (cases "snd grp")
  case None
  then show ?thesis by (simp add: load_group_def)
next
  case (Some ps)
  have "fst ` set (foldl (\<lambda>rs (perm_name, perm_data).
                   AList.update (lower perm_name) (merge_rule r perm_data) rs) rs0 ps)
        = fst ` set rs0 \<union> lower ` fst ` set ps" for rs0 r
  proof (induction ps arbitrary: rs0)
    case Nil
    show ?case by simp
  next
    case (Cons p ps)
    obtain n d where p: "p = (n, d)" by (cases p)
    have "fst ` set (foldl (\<lambda>rs (perm_name, perm_data).
                   AList.update (lower perm_name) (merge_rule r perm_data) rs) rs0 (p # ps))
          = fst ` set (AList.update (lower n) (merge_rule r d) rs0) \<union> lower ` fst ` set ps"
      by (simp add: p Cons.IH)
    also have "\<dots> = fst ` set rs0 \<union> lower ` fst ` set (p # ps)"
      by (simp add: dom_update p)
    finally show ?case .
  qed
  then show ?thesis using Some by (simp add: load_group_def)
qed

lemma keys_load_rules: "fst ` set (load_rules data) = lower ` set (entry_names data)"
proof -
  have "fst ` set (foldl load_group rs0 data) = fst ` set rs0 \<union> lower ` set (entry_names data)"
    for rs0
  proof (induction data arbitrary: rs0)
    case Nil
    then show ?case by (simp add: entry_names_def)
  next
    case (Cons grp data)
    show ?case
      by (cases "snd grp")
         (auto simp: Cons.IH keys_load_group entry_names_def image_Un)
  qed
  from this [of "[]"] show ?thesis by (simp add: load_rules_def)
qed

lemma translate_miss:
  assumes "lower x \<notin> fst ` set rules"
  shows "translate rules x =
           \<lparr>permission = x, resource = ''microsoft_graph'',
            plain_english = ''Permission: '' @ x @ '' (no translation available)'',
            category = UNKNOWN, category_label = ''Unknown - requires review'',
            impact_score = 30, abuse_scenarios = [], admin_impact_note = None,
            is_known = False\<rparr>"
proof -
  have "map_of rules (lower x) = None" using assms by (simp add: map_of_eq_None_iff)
  then show ?thesis by (simp add: translate_def translate_res_def find_rule_def)
qed

subsection \<open>One permission as a delegated scope and as an application role\<close>


lemma py_int_of_int [simp]: "py_int (of_int b) = b"
  by (simp add: py_int_def)



lemma max_impact_over_Cons:
  "max_impact_over rules m (x # xs) = max_impact_over rules (max m (impact_score (translate rules x))) xs"
  by (simp add: max_impact_over_def)

lemma max_impact_over_max:
  "max_impact_over rules (max m k) xs = max k (max_impact_over rules m xs)"
proof (induction xs arbitrary: m)
  case Nil
  show ?case by (simp add: max_impact_over_def max.commute)
next
  case (Cons x xs)
  have "max (max m k) (impact_score (translate rules x)) = max (max m (impact_score (translate rules x))) k"
    by (simp add: max.assoc max.commute max.left_commute)
  then show ?case by (simp add: max_impact_over_Cons Cons.IH)
qed












lemma max_impact_over_max':
  "max_impact_over rules (max k m) xs = max k (max_impact_over rules m xs)"
  by (simp add: max.commute [of k m] max_impact_over_max)

lemma max_impact_over_scope_first:
  "max_impact_over rules (max_impact_over rules 0 (v # ds)) rs
   = max (impact_score (translate rules v)) (max_impact_over rules (max_impact_over rules 0 ds) rs)"
proof -
  let ?b = "impact_score (translate rules v)"
  have "max_impact_over rules 0 (v # ds) = max ?b (max_impact_over rules 0 ds)"
    by (simp only: max_impact_over_Cons max_impact_over_max)
  then show ?thesis
    by (simp only: max_impact_over_max')
qed








section \<open>The claims\<close>



text \<open>
  C2. For a service principal whose application id is in the allow set, the result is
  total 0, level Allowed and the single allow-list factor, whatever its permissions, trust
  class, owners, activity, credentials or deny-list membership.
\<close>
theorem allow_list_short_circuit:
  assumes "app_id sp \<in> set (allowed_app_ids (allow_deny cfg))"
  shows "score_service_principal cfg rules now sp =
           \<lparr>total_score = 0, risk_level = ''Allowed'',
            factors = [\<lparr>name = ''Allow List'', description = ''App is on the allow list'',
                        score = 0, weight = 1, details = None\<rparr>]\<rparr>"
  using assms by (simp add: score_service_principal_def)

theorem allow_list_short_circuit_witness:
  "app_id sp_tenant \<in> set (allowed_app_ids (allow_deny config_listed))
   \<and> app_id sp_tenant \<in> set (denied_app_ids (allow_deny config_listed))
   \<and> total_score (score_service_principal config_listed catalog 0 sp_tenant) = 0
   \<and> risk_level (score_service_principal config_listed catalog 0 sp_tenant) = ''Allowed''
   \<and> length (factors (score_service_principal config_listed catalog 0 sp_tenant)) = 1"
proof -
  have h: "app_id sp_tenant \<in> set (allowed_app_ids (allow_deny config_listed))"
    by code_simp
  have d: "app_id sp_tenant \<in> set (denied_app_ids (allow_deny config_listed))"
    by code_simp
  show ?thesis
    using h d allow_list_short_circuit [OF h, of catalog 0] by simp
qed


text \<open>
  C3. A permission string whose case-folded form is not a key of the rule map translates to
  \<open>is_known = False\<close>, impact score 30 and category Unknown; for a loaded catalog that is
  every string that matches no entry name of the document up to case. Two strings with
  the same case-folded form translate to the same category and impact score.
\<close>
theorem translate_unknown_and_case_insensitive:
  "(lower x \<notin> fst ` set rules \<longrightarrow>
      is_known (translate rules x) = False \<and> impact_score (translate rules x) = 30
      \<and> category (translate rules x) = UNKNOWN)
   \<and> (lower x \<notin> lower ` set (entry_names data) \<longrightarrow>
      is_known (translate (load_rules data) x) = False
      \<and> impact_score (translate (load_rules data) x) = 30
      \<and> category (translate (load_rules data) x) = UNKNOWN)
   \<and> (lower p = lower q \<longrightarrow>
      category (translate rules p) = category (translate rules q)
      \<and> impact_score (translate rules p) = impact_score (translate rules q))"
proof (intro conjI impI)
  assume "lower p = lower q"
  then show "category (translate rules p) = category (translate rules q)"
    and "impact_score (translate rules p) = impact_score (translate rules q)"
    by (simp_all add: translate_def translate_res_def Let_def split: option.splits)
next
  assume "lower x \<notin> fst ` set rules"
  then show "is_known (translate rules x) = False" and "impact_score (translate rules x) = 30"
    and "category (translate rules x) = UNKNOWN"
    by (simp_all add: translate_miss)
next
  assume "lower x \<notin> lower ` set (entry_names data)"
  then have "lower x \<notin> fst ` set (load_rules data)" by (simp add: keys_load_rules)
  then show "is_known (translate (load_rules data) x) = False"
    and "impact_score (translate (load_rules data) x) = 30"
    and "category (translate (load_rules data) x) = UNKNOWN"
    by (simp_all add: translate_miss)
qed

theorem translate_unknown_and_case_insensitive_witness:
  "lower ''Custom.Unknown.Scope'' \<notin> lower ` set (entry_names catalog_doc)
   \<and> is_known (translate catalog ''Custom.Unknown.Scope'') = False
   \<and> impact_score (translate catalog ''Custom.Unknown.Scope'') = 30
   \<and> category (translate catalog ''Custom.Unknown.Scope'') = UNKNOWN
   \<and> lower ''Mail.Read'' = lower ''MAIL.READ''
   \<and> category (translate catalog ''Mail.Read'') = category (translate catalog ''MAIL.READ'')
   \<and> impact_score (translate catalog ''Mail.Read'') = impact_score (translate catalog ''MAIL.READ'')
   \<and> impact_score (translate catalog ''Mail.Read'') = 70"
proof -
  have a: "lower ''Custom.Unknown.Scope'' \<notin> lower ` set (entry_names catalog_doc)"
    by code_simp
  have b: "lower ''Mail.Read'' = lower ''MAIL.READ''"
    by code_simp
  have c: "impact_score (translate catalog ''Mail.Read'') = 70"
    by code_simp
  show ?thesis
    using a b c
      translate_unknown_and_case_insensitive
        [of "''Custom.Unknown.Scope''" catalog catalog_doc "''Mail.Read''" "''MAIL.READ''"]
    by (simp add: catalog_def)
qed







text \<open>
  C6 fails on the code. The application below was last active 200 days ago (threshold 90),
  telemetry is available, and its only permission, the application role
  \<^verbatim>\<open>Directory.ReadWrite.All\<close>, has impact 100; \<^verbatim>\<open>_score_activity\<close> emits no factor,
  because its maximum runs over the delegated scopes only. The same permission held as a
  delegated scope yields the factor of score 25, and \<^verbatim>\<open>_score_ownership\<close> does count
  the application role (score 15 for a maximum of at least 70).
\<close>
theorem activity_ignores_application_roles:
  "sign_in_activity sp_inactive_role = Some activity_example
   \<and> data_available activity_example
   \<and> days_since_last_activity now_example activity_example = Some 200
   \<and> inactive_days_threshold (thresholds default_config) = 90
   \<and> all_app_role_values sp_inactive_role = [''Directory.ReadWrite.All'']
   \<and> impact_score (translate catalog ''Directory.ReadWrite.All'') = 100
   \<and> score_activity default_config catalog now_example sp_inactive_role = []
   \<and> map score (score_activity default_config catalog now_example sp_inactive_scope) = [25]
   \<and> map details (score_activity default_config catalog now_example sp_inactive_scope)
       = [Some ''Threshold: 90 days'']
   \<and> map score (score_ownership default_config catalog sp_inactive_role) = [15]"
  by code_simp

text \<open>
  C8 fails on the code. The entry \<^verbatim>\<open>Custom.Audit\<close> of the example catalog has no impact
  score, so it translates to impact 30; \<^verbatim>\<open>get_high_impact_permissions(20)\<close> leaves it
  out, because the filter reads a missing impact score as 0. It is listed for the
  minimum 0.
\<close>
theorem high_impact_filter_defaults_to_zero:
  "map_of catalog ''custom.audit'' \<noteq> None
   \<and> impact_score (translate catalog ''Custom.Audit'') = 30
   \<and> map fst (get_high_impact_permissions catalog 20)
       = [''directory.readwrite.all'', ''mail.read'']
   \<and> map (\<lambda>x. impact_score (snd x)) (get_high_impact_permissions catalog 0) = [100, 70, 30]
   \<and> map fst (get_high_impact_permissions catalog 0)
       = [''directory.readwrite.all'', ''mail.read'', ''custom.audit'']"
  by code_simp

text \<open>
  C9. The result of \<^verbatim>\<open>detect\<close> (the findings and the updated analysis result) does not
  depend on the deny list: replacing \<^verbatim>\<open>denied_app_ids\<close> by any list leaves it
  unchanged. The findings are the sorted findings of the six rules over the service
  principals that are neither first-party nor allow-listed, in their order.
\<close>
theorem detect_ignores_deny_list:
  "detect (cfg\<lparr>allow_deny := (allow_deny cfg)\<lparr>denied_app_ids := d\<rparr>\<rparr>) now result
     = detect cfg now result
   \<and> fst (detect cfg now result)
     = sort_key (\<lambda>f. severity_order (severity f))
         (concat (map (detection_rules cfg now result)
            (filter (\<lambda>sp. \<not> app_type sp = FIRST_PARTY_MICROSOFT
                          \<and> \<not> app_id sp \<in> set (allowed_app_ids (allow_deny cfg)))
                    (service_principals result))))"
proof
  show "detect (cfg\<lparr>allow_deny := (allow_deny cfg)\<lparr>denied_app_ids := d\<rparr>\<rparr>) now result
     = detect cfg now result"
    by (simp add: detect_def detect_one_denied)
  have "detect_one cfg now result
        = (\<lambda>sp. if app_type sp = FIRST_PARTY_MICROSOFT then []
                 else if app_id sp \<in> set (allowed_app_ids (allow_deny cfg)) then []
                 else detection_rules cfg now result sp)"
    by (rule ext) (simp add: detect_one_def)
  then show "fst (detect cfg now result)
     = sort_key (\<lambda>f. severity_order (severity f))
         (concat (map (detection_rules cfg now result)
            (filter (\<lambda>sp. \<not> app_type sp = FIRST_PARTY_MICROSOFT
                          \<and> \<not> app_id sp \<in> set (allowed_app_ids (allow_deny cfg)))
                    (service_principals result))))"
    by (simp add: detect_def Let_def concat_map_skip)
qed

theorem detect_ignores_deny_list_witness:
  "detect config_denied 0 result_example = detect default_config 0 result_example
   \<and> map finding_type (fst (detect default_config 0 result_example))
     = [''external_delegated_high_impact'', ''user_consent_high_impact'',
        ''orphaned_privileged'', ''unverified_publisher_high_impact'',
        ''offline_access_high_impact'']"
proof -
  have a: "map finding_type (fst (detect default_config 0 result_example))
     = [''external_delegated_high_impact'', ''user_consent_high_impact'',
        ''orphaned_privileged'', ''unverified_publisher_high_impact'',
        ''offline_access_high_impact'']"
    by code_simp
  show ?thesis
    using a detect_ignores_deny_list
      [where cfg = default_config and d = "[''app-id-123'']" and now = 0
         and result = result_example]
    by (simp add: config_denied_def)
qed




end
